theory Spec2Isabelle
  imports Complex_Main "HOL-Library.Monad_Syntax"
begin

section \<open>The drawing surface\<close>

text \<open>
  The program (\<^verbatim>\<open>nba_shotchart.py\<close>) draws on a matplotlib \<^verbatim>\<open>Axes\<close>. The model keeps
  the part of an \<^verbatim>\<open>Axes\<close> that the program touches: the view limits with their
  autoscale flags, the title, the tick-label switches, the list of patches, the list of
  scatter collections and the legend. Python's numbers (\<^verbatim>\<open>7.5\<close>, \<^verbatim>\<open>-47.5\<close>, \<^verbatim>\<open>422.5\<close>,
  \<^verbatim>\<open>60\<close>) are all exact binary fractions, so they are modelled as rationals.
\<close>

type_synonym color = string
type_synonym point = "rat \<times> rat"

text \<open>
  The three patch classes of \<^verbatim>\<open>matplotlib.patches\<close> that \<^verbatim>\<open>draw_court\<close> constructs, with
  the arguments it gives them:
  \<^item> \<^verbatim>\<open>Circle(xy, radius, linewidth, color, fill)\<close>;
  \<^item> \<^verbatim>\<open>Rectangle(xy, width, height, linewidth, color, fill)\<close>, where \<^verbatim>\<open>xy\<close> is the
    anchor corner and \<^verbatim>\<open>fill\<close> is \<^verbatim>\<open>True\<close> when the call leaves it out;
  \<^item> \<^verbatim>\<open>Arc(xy, width, height, theta1, theta2, linewidth, color)\<close>, where \<^verbatim>\<open>width\<close> and
    \<^verbatim>\<open>height\<close> are the full lengths of the two axes of the ellipse; an arc is never
    filled.
\<close>

datatype patch =
  Circle point rat rat color bool
| Rectangle point rat rat rat color bool
| Arc point rat rat rat rat rat color

fun patch_color :: "patch \<Rightarrow> color" where
  "patch_color (Circle xy r lw c f) = c"
| "patch_color (Rectangle xy w h lw c f) = c"
| "patch_color (Arc xy w h t1 t2 lw c) = c"

fun patch_linewidth :: "patch \<Rightarrow> rat" where
  "patch_linewidth (Circle xy r lw c f) = lw"
| "patch_linewidth (Rectangle xy w h lw c f) = lw"
| "patch_linewidth (Arc xy w h t1 t2 lw c) = lw"

text \<open>
  What \<^verbatim>\<open>ax.scatter\<close> adds to the surface: a collection of marker positions with the
  style arguments of the call (\<open>c'\<close> and \<open>s'\<close> are the arguments \<^verbatim>\<open>c\<close> and \<^verbatim>\<open>s\<close>).
  An argument the call leaves out is \<open>None\<close>.
\<close>

record path_collection =
  offsets :: "point list"
  c' :: "color option"
  edgecolors :: "color option"
  facecolors :: "color option"
  marker :: string
  s' :: rat
  linewidths :: rat
  label :: string

record axes =
  xlim :: "rat \<times> rat"
  ylim :: "rat \<times> rat"
  autoscalex_on :: bool
  autoscaley_on :: bool
  title :: string
  title_fontsize :: rat
  labelbottom :: bool
  labelleft :: bool
  patches :: "patch list"
  collections :: "path_collection list"
  legend_labels :: "string list option"

text \<open>
  \<^verbatim>\<open>if ax is None: ax = plt.gca()\<close>. The argument \<open>gca\<close> of the model is the surface
  that \<^verbatim>\<open>plt.gca()\<close> would return, pyplot's current axes.
\<close>

definition resolve_ax :: "axes option \<Rightarrow> axes \<Rightarrow> axes" where
  "resolve_ax ax gca = (case ax of None \<Rightarrow> gca | Some a \<Rightarrow> a)"

text \<open>\<^verbatim>\<open>ax.add_patch(p)\<close> appends the patch; it does not rescale the view.\<close>

definition add_patch :: "axes \<Rightarrow> patch \<Rightarrow> axes" where
  "add_patch ax p = ax\<lparr>patches := patches ax @ [p]\<rparr>"

section \<open>The court renderer\<close>

text \<open>
  The list \<^verbatim>\<open>court_elements\<close> of \<^verbatim>\<open>draw_court\<close>, in the order of the source, followed by
  the boundary rectangle that \<^verbatim>\<open>if outer_lines:\<close> appends.
\<close>

definition court_elements :: "color \<Rightarrow> rat \<Rightarrow> bool \<Rightarrow> patch list" where
  "court_elements color lw outer_lines =
     [ Circle (0, 0) 7.5 lw color False,
       Rectangle (-30, -12.5) 60 0 lw color True,
       Rectangle (-80, -47.5) 160 190 lw color False,
       Rectangle (-60, -47.5) 120 190 lw color False,
       Arc (0, 142.5) 120 120 0 180 lw color,
       Arc (0, 142.5) 120 120 180 0 lw color,
       Arc (0, 0) 80 80 0 180 lw color,
       Rectangle (-220, -47.5) 0 140 lw color True,
       Rectangle (220, -47.5) 0 140 lw color True,
       Arc (0, 0) 475 475 22 158 lw color,
       Arc (0, 422.5) 120 120 180 0 lw color,
       Arc (0, 422.5) 40 40 180 0 lw color ]
     @ (if outer_lines then [Rectangle (-250, -47.5) 500 470 lw color False] else [])"

text \<open>
  \<^verbatim>\<open>draw_court(ax=None, color="blue", lw=1, outer_lines=False)\<close>: every element of the
  list is added to the surface, in order (\<^verbatim>\<open>for element in court_elements\<close>). The result
  is the surface after the call.
\<close>

definition draw_court :: "axes \<Rightarrow> axes option \<Rightarrow> color \<Rightarrow> rat \<Rightarrow> bool \<Rightarrow> axes" where
  "draw_court gca ax color lw outer_lines =
     fold (\<lambda>element a. add_patch a element) (court_elements color lw outer_lines)
       (resolve_ax ax gca)"

text \<open>The patches that a call has added to a surface that held \<open>before\<close>.\<close>

definition added_patches :: "axes \<Rightarrow> axes \<Rightarrow> patch list" where
  "added_patches before after = drop (length (patches before)) (patches after)"

subsection \<open>The catalogue of the specification\<close>

text \<open>
  The specification lists the court as geometric shapes: circles and arcs by centre and
  radius, segments by their end points, rectangles by corner, width and height. The
  type below has one constructor for each kind of row of that table:
  \<^item> \<open>GCircle centre radius filled\<close>;
  \<^item> \<open>GHSegment centre width\<close>, a horizontal segment;
  \<^item> \<open>GVSegment x y_from y_to\<close>, a vertical segment;
  \<^item> \<open>GRect corner width height filled\<close>;
  \<^item> \<open>GArc centre radius theta1 theta2\<close>, angles in degrees;
  \<^item> \<open>GEllipseArc centre width height theta1 theta2\<close>, for an arc whose two axes
    differ (the table has none).
\<close>

datatype geometry =
  GCircle point rat bool
| GHSegment point rat
| GVSegment rat rat rat
| GRect point rat rat bool
| GArc point rat rat rat
| GEllipseArc point rat rat rat rat

text \<open>
  The shape that a patch of the code draws. A rectangle of height 0 is a horizontal
  segment from its anchor to the right, a rectangle of width 0 a vertical segment from
  its anchor upwards; an arc with equal axes is an arc of a circle of half that
  diameter.
\<close>

fun geometry_of :: "patch \<Rightarrow> geometry" where
  "geometry_of (Circle xy r lw col f) = GCircle xy r f"
| "geometry_of (Rectangle xy w h lw col f) =
     (if h = 0 then GHSegment (fst xy + w / 2, snd xy) w
      else if w = 0 then GVSegment (fst xy) (snd xy) (snd xy + h)
      else GRect xy w h f)"
| "geometry_of (Arc xy w h t1 t2 lw col) =
     (if w = h then GArc xy (w / 2) t1 t2 else GEllipseArc xy w h t1 t2)"

text \<open>
  The table of section 4.2 of the specification, row by row, written from the
  specification's words and not from the code: the twelve rows that are always drawn,
  and the optional last row.
\<close>

definition spec_catalogue :: "geometry list" where
  "spec_catalogue =
     [ GCircle (0, 0) 7.5 False,
       GHSegment (0, -12.5) 60,
       GRect (-80, -47.5) 160 190 False,
       GRect (-60, -47.5) 120 190 False,
       GArc (0, 142.5) 60 0 180,
       GArc (0, 142.5) 60 180 0,
       GArc (0, 0) 40 0 180,
       GVSegment (-220) (-47.5) 92.5,
       GVSegment 220 (-47.5) 92.5,
       GArc (0, 0) 237.5 22 158,
       GArc (0, 422.5) 60 180 0,
       GArc (0, 422.5) 20 180 0 ]"

definition spec_outer_boundary :: geometry where
  "spec_outer_boundary = GRect (-250, -47.5) 500 470 False"

section \<open>The shot data\<close>

text \<open>
  A row of the shot table, with the three columns that the plot reads. The table
  (a pandas \<^verbatim>\<open>DataFrame\<close>) is the list of its rows, in order.
\<close>

record shot =
  LOC_X :: rat
  LOC_Y :: rat
  EVENT_TYPE :: string

text \<open>
  \<^verbatim>\<open>df[col] == v\<close>: the boolean mask, one entry for each row.
  \<^verbatim>\<open>df.loc[mask, col]\<close>: the values of the column in the rows where the mask holds, in
  the order of the table. Both build new objects and leave the table as it is.
\<close>

definition col_eq :: "('r \<Rightarrow> string) \<Rightarrow> 'r list \<Rightarrow> string \<Rightarrow> bool list" where
  "col_eq col df v = map (\<lambda>r. col r = v) df"

definition loc :: "'r list \<Rightarrow> bool list \<Rightarrow> ('r \<Rightarrow> 'a) \<Rightarrow> 'a list" where
  "loc df msk col = map (col \<circ> fst) (filter snd (zip df msk))"

section \<open>The surface operations of the plot\<close>

text \<open>
  \<^verbatim>\<open>ax.set_xlim(left, right)\<close> and \<^verbatim>\<open>ax.set_ylim(bottom, top)\<close> store the two bounds in
  the order given and, with their default \<^verbatim>\<open>auto=False\<close>, turn autoscaling of that
  axis off.
\<close>

definition set_xlim :: "axes \<Rightarrow> rat \<Rightarrow> rat \<Rightarrow> axes" where
  "set_xlim ax left right = ax\<lparr>xlim := (left, right), autoscalex_on := False\<rparr>"

definition set_ylim :: "axes \<Rightarrow> rat \<Rightarrow> rat \<Rightarrow> axes" where
  "set_ylim ax ybottom ytop = ax\<lparr>ylim := (ybottom, ytop), autoscaley_on := False\<rparr>"

definition set_title :: "axes \<Rightarrow> string \<Rightarrow> rat \<Rightarrow> axes" where
  "set_title ax t fontsize = ax\<lparr>title := t, title_fontsize := fontsize\<rparr>"

definition tick_params :: "axes \<Rightarrow> bool \<Rightarrow> bool \<Rightarrow> axes" where
  "tick_params ax lb ll = ax\<lparr>labelbottom := lb, labelleft := ll\<rparr>"

text \<open>
  Autoscaling, as far as the plot can observe it: an axis whose autoscale flag is on
  gets the range of the marker positions on the surface as its limits (matplotlib adds
  a margin, left out here); an axis whose flag is off keeps its limits.
\<close>

definition data_interval :: "rat list \<Rightarrow> rat \<times> rat \<Rightarrow> rat \<times> rat" where
  "data_interval vs old = (case vs of [] \<Rightarrow> old | v # ws \<Rightarrow> (fold min ws v, fold max ws v))"

definition autoscale_view :: "axes \<Rightarrow> axes" where
  "autoscale_view ax =
     ax\<lparr>xlim := (if autoscalex_on ax
                 then data_interval (map fst (concat (map offsets (collections ax)))) (xlim ax)
                 else xlim ax),
        ylim := (if autoscaley_on ax
                 then data_interval (map snd (concat (map offsets (collections ax)))) (ylim ax)
                 else ylim ax)\<rparr>"

text \<open>
  \<^verbatim>\<open>ax.scatter(x, y, ...)\<close>: the markers are at the pairs of \<open>x\<close> and \<open>y\<close>; the
  collection is added to the surface and an autoscale of the view is requested.
\<close>

definition scatter ::
  "axes \<Rightarrow> rat list \<Rightarrow> rat list \<Rightarrow> color option \<Rightarrow> color option \<Rightarrow> color option \<Rightarrow>
   string \<Rightarrow> rat \<Rightarrow> rat \<Rightarrow> string \<Rightarrow> axes" where
  "scatter ax x y c_arg edge face mk sz lws lab =
     autoscale_view
       (ax\<lparr>collections := collections ax @
             [\<lparr>offsets = zip x y, c' = c_arg, edgecolors = edge, facecolors = face,
               marker = mk, s' = sz, linewidths = lws, label = lab\<rparr>]\<rparr>)"

text \<open>
  \<^verbatim>\<open>ax.legend()\<close> lists the labelled artists: those whose label is not empty and does
  not start with an underscore. The court patches carry no label.
\<close>

definition legend :: "axes \<Rightarrow> axes" where
  "legend ax =
     ax\<lparr>legend_labels :=
          Some (filter (\<lambda>l. l \<noteq> [] \<and> hd l \<noteq> CHR ''_'') (map label (collections ax)))\<rparr>"

section \<open>The shot plotter\<close>

text \<open>
  \<^verbatim>\<open>plot_shot_chart(data, title="", ax=None, court_color="white", court_lw=2,
  line_color="blue")\<close>. Python hands \<^verbatim>\<open>data\<close> over by reference, so the model returns the
  table as it is after the call together with the surface after the call. The call of
  \<^verbatim>\<open>draw_court\<close> is \<^verbatim>\<open>draw_court(ax, color=line_color, lw=court_lw)\<close>, with
  \<^verbatim>\<open>outer_lines\<close> left at its default \<^verbatim>\<open>False\<close>.
\<close>

definition plot_shot_chart ::
  "axes \<Rightarrow> shot list \<Rightarrow> string \<Rightarrow> axes option \<Rightarrow> color \<Rightarrow> rat \<Rightarrow> color \<Rightarrow> shot list \<times> axes" where
  "plot_shot_chart gca data ttl ax court_color court_lw line_color =
     (let ax0 = resolve_ax ax gca;
          ax1 = set_xlim ax0 (-250) 250;
          ax2 = set_ylim ax1 422.5 (-47.5);
          ax3 = set_title ax2 ttl 18;
          ax4 = tick_params ax3 False False;
          ax5 = draw_court gca (Some ax4) line_color court_lw False;
          ax6 = scatter ax5
                  (loc data (col_eq EVENT_TYPE data ''Missed Shot'') LOC_X)
                  (loc data (col_eq EVENT_TYPE data ''Missed Shot'') LOC_Y)
                  (Some ''r'') None None ''x'' 100 1 ''Missed'';
          ax7 = scatter ax6
                  (loc data (col_eq EVENT_TYPE data ''Made Shot'') LOC_X)
                  (loc data (col_eq EVENT_TYPE data ''Made Shot'') LOC_Y)
                  None (Some ''g'') (Some ''none'') ''o'' 100 1 ''Made''
      in (data, legend ax7))"

text \<open>
  The collections that a call has added to a surface that held \<open>before\<close>, and the
  marker positions of the series with a given label among some collections.
\<close>

definition added_collections :: "axes \<Rightarrow> axes \<Rightarrow> path_collection list" where
  "added_collections before after = drop (length (collections before)) (collections after)"

definition series :: "string \<Rightarrow> path_collection list \<Rightarrow> point list" where
  "series lab pcs = concat (map offsets (filter (\<lambda>pc. label pc = lab) pcs))"

text \<open>
  The records of a table are told apart by their position: two rows may hold the same
  values. \<open>rows_where P data\<close> is the set of positions of the rows that satisfy \<open>P\<close>.
\<close>

definition rows_where :: "(shot \<Rightarrow> bool) \<Rightarrow> shot list \<Rightarrow> nat set" where
  "rows_where P data = set (filter (\<lambda>i. P (data ! i)) [0..<length data])"

definition is_missed :: "shot \<Rightarrow> bool" where
  "is_missed r = (EVENT_TYPE r = ''Missed Shot'')"

definition is_made :: "shot \<Rightarrow> bool" where
  "is_made r = (EVENT_TYPE r = ''Made Shot'')"

definition is_other :: "shot \<Rightarrow> bool" where
  "is_other r = (\<not> is_missed r \<and> \<not> is_made r)"

definition coords :: "shot \<Rightarrow> point" where
  "coords r = (LOC_X r, LOC_Y r)"

text \<open>A surface on which nothing has been drawn yet, with matplotlib's defaults.\<close>

definition fresh_axes :: axes where
  "fresh_axes =
     \<lparr>xlim = (0, 1), ylim = (0, 1), autoscalex_on = True, autoscaley_on = True,
      title = [], title_fontsize = 12, labelbottom = True, labelleft = True,
      patches = [], collections = [], legend_labels = None\<rparr>"

section \<open>The plotter on shared objects\<close>

text \<open>
  Python hands the table and the surface to \<^verbatim>\<open>plot_shot_chart\<close> by reference, and the
  caller keeps both references. To say what the call does to the caller's objects, the
  objects live in a store: a list of objects, where a reference is a position and a new
  object is put at the end. The objects are tables, the boolean and numeric series that
  pandas builds from a table, and surfaces.
\<close>

datatype obj =
  DataFrame "shot list"
| BoolSeries "bool list"
| NumSeries "rat list"
| Axes axes

type_synonym store = "obj list"
type_synonym ref = nat

definition alloc :: "store \<Rightarrow> obj \<Rightarrow> store \<times> ref" where
  "alloc h ob = (h @ [ob], length h)"

text \<open>
  Reading a reference as an object of a given class. \<open>None\<close> stands for the exception
  that Python raises when the object is of another class (or the reference is not one
  of the store): the call then ends there.
\<close>

definition frame_at :: "store \<Rightarrow> ref \<Rightarrow> shot list option" where
  "frame_at h r =
     (if r < length h then (case h ! r of DataFrame df \<Rightarrow> Some df | _ \<Rightarrow> None) else None)"

definition bools_at :: "store \<Rightarrow> ref \<Rightarrow> bool list option" where
  "bools_at h r =
     (if r < length h then (case h ! r of BoolSeries bs \<Rightarrow> Some bs | _ \<Rightarrow> None) else None)"

definition nums_at :: "store \<Rightarrow> ref \<Rightarrow> rat list option" where
  "nums_at h r =
     (if r < length h then (case h ! r of NumSeries vs \<Rightarrow> Some vs | _ \<Rightarrow> None) else None)"

definition axes_at :: "store \<Rightarrow> ref \<Rightarrow> axes option" where
  "axes_at h r =
     (if r < length h then (case h ! r of Axes a \<Rightarrow> Some a | _ \<Rightarrow> None) else None)"

text \<open>
  \<^verbatim>\<open>data['EVENT_TYPE'] == v\<close> builds a new boolean series, and \<^verbatim>\<open>data.loc[mask, col]\<close>
  a new numeric series; neither writes to the table or to the mask.
\<close>

definition event_type_eq :: "store \<Rightarrow> ref \<Rightarrow> string \<Rightarrow> (store \<times> ref) option" where
  "event_type_eq h data v =
     do { df \<leftarrow> frame_at h data;
          Some (alloc h (BoolSeries (col_eq EVENT_TYPE df v))) }"

definition loc_at :: "store \<Rightarrow> ref \<Rightarrow> ref \<Rightarrow> (shot \<Rightarrow> rat) \<Rightarrow> (store \<times> ref) option" where
  "loc_at h data msk col =
     do { df \<leftarrow> frame_at h data;
          bs \<leftarrow> bools_at h msk;
          Some (alloc h (NumSeries (loc df bs col))) }"

text \<open>
  A method of the surface changes the surface object in place. \<^verbatim>\<open>ax.scatter(x, y, ...)\<close>
  reads the two series and copies their values into the new collection.
\<close>

definition on_axes :: "store \<Rightarrow> ref \<Rightarrow> (axes \<Rightarrow> axes) \<Rightarrow> store option" where
  "on_axes h ax f = do { a \<leftarrow> axes_at h ax; Some (h[ax := Axes (f a)]) }"

definition scatter_at ::
  "store \<Rightarrow> ref \<Rightarrow> ref \<Rightarrow> ref \<Rightarrow> color option \<Rightarrow> color option \<Rightarrow> color option \<Rightarrow>
   string \<Rightarrow> rat \<Rightarrow> rat \<Rightarrow> string \<Rightarrow> store option" where
  "scatter_at h ax x y c_arg edge face mk sz lws lab =
     do { xs \<leftarrow> nums_at h x;
          ys \<leftarrow> nums_at h y;
          on_axes h ax (\<lambda>a. scatter a xs ys c_arg edge face mk sz lws lab) }"

text \<open>
  \<^verbatim>\<open>plot_shot_chart\<close> on references: \<open>data\<close> refers to the table, \<open>ax\<close> (when given) to the
  surface, and \<open>gca\<close> is the reference that \<^verbatim>\<open>plt.gca()\<close> returns. The statements are
  those of the source in its order; the arguments of each \<^verbatim>\<open>scatter\<close> call are evaluated
  from left to right, each building its own mask. The result is the store after the
  call.
\<close>

definition plot_shot_chart_at ::
  "store \<Rightarrow> ref \<Rightarrow> ref \<Rightarrow> string \<Rightarrow> ref option \<Rightarrow> color \<Rightarrow> rat \<Rightarrow> color \<Rightarrow> store option" where
  "plot_shot_chart_at h gca data ttl ax court_color court_lw line_color =
     (let axr = (case ax of None \<Rightarrow> gca | Some r \<Rightarrow> r) in
      do { h1 \<leftarrow> on_axes h axr (\<lambda>a. set_xlim a (-250) 250);
           h2 \<leftarrow> on_axes h1 axr (\<lambda>a. set_ylim a 422.5 (-47.5));
           h3 \<leftarrow> on_axes h2 axr (\<lambda>a. set_title a ttl 18);
           h4 \<leftarrow> on_axes h3 axr (\<lambda>a. tick_params a False False);
           h5 \<leftarrow> on_axes h4 axr (\<lambda>a. draw_court a (Some a) line_color court_lw False);
           (h6, m1) \<leftarrow> event_type_eq h5 data ''Missed Shot'';
           (h7, x1) \<leftarrow> loc_at h6 data m1 LOC_X;
           (h8, m2) \<leftarrow> event_type_eq h7 data ''Missed Shot'';
           (h9, y1) \<leftarrow> loc_at h8 data m2 LOC_Y;
           h10 \<leftarrow> scatter_at h9 axr x1 y1 (Some ''r'') None None ''x'' 100 1 ''Missed'';
           (h11, m3) \<leftarrow> event_type_eq h10 data ''Made Shot'';
           (h12, x2) \<leftarrow> loc_at h11 data m3 LOC_X;
           (h13, m4) \<leftarrow> event_type_eq h12 data ''Made Shot'';
           (h14, y2) \<leftarrow> loc_at h13 data m4 LOC_Y;
           h15 \<leftarrow> scatter_at h14 axr x2 y2 None (Some ''g'') (Some ''none'') ''o'' 100 1 ''Made'';
           on_axes h15 axr legend })"

text \<open>
  The series that one call builds, in the order in which it builds them: for each of
  the two \<^verbatim>\<open>scatter\<close> calls a mask and the x values, then a mask again and the y values.
\<close>

definition temporaries :: "shot list \<Rightarrow> obj list" where
  "temporaries df =
     [BoolSeries (col_eq EVENT_TYPE df ''Missed Shot''),
      NumSeries (loc df (col_eq EVENT_TYPE df ''Missed Shot'') LOC_X),
      BoolSeries (col_eq EVENT_TYPE df ''Missed Shot''),
      NumSeries (loc df (col_eq EVENT_TYPE df ''Missed Shot'') LOC_Y),
      BoolSeries (col_eq EVENT_TYPE df ''Made Shot''),
      NumSeries (loc df (col_eq EVENT_TYPE df ''Made Shot'') LOC_X),
      BoolSeries (col_eq EVENT_TYPE df ''Made Shot''),
      NumSeries (loc df (col_eq EVENT_TYPE df ''Made Shot'') LOC_Y)]"

section \<open>The stats retriever\<close>

text \<open>
  The exceptions that \<^verbatim>\<open>get_player_shotchartdetail\<close> can end with: the \<^verbatim>\<open>ValueError\<close>
  it raises itself, the \<^verbatim>\<open>IndexError\<close> of an index that is out of range (of a Python
  list, or of \<^verbatim>\<open>.iloc\<close> on a pandas selection), and whatever a request to the provider
  raises (\<open>EndpointError\<close>). The string is the message.
\<close>

datatype error = ValueError string | IndexError string | EndpointError string

text \<open>
  An entry of the player directory (\<open>id'\<close> is the key \<^verbatim>\<open>'id'\<close>), a row of the career
  table, and the keyword arguments of the shot-chart request.
\<close>

record player =
  id' :: int
  full_name :: string

record career_row =
  SEASON_ID :: string
  TEAM_ID :: int

record shot_query =
  team_id :: int
  player_id :: int
  season_type_all_star :: string
  season_nullable :: string
  context_measure_simple :: string

text \<open>
  The provider, as the function sees it: the player directory
  (\<^verbatim>\<open>players.get_players()\<close>), the career endpoint
  (\<^verbatim>\<open>PlayerCareerStats(player_id=...).get_data_frames()\<close>) and the shot-chart endpoint
  (\<^verbatim>\<open>ShotChartDetail(...).get_data_frames()\<close>). An endpoint answers with a list of
  tables or raises. The tables of the shot-chart endpoint are of a type \<open>'f\<close> that the
  function does not look into.
\<close>

record 'f provider =
  get_players :: "player list"
  PlayerCareerStats :: "int \<Rightarrow> error + career_row list list"
  ShotChartDetail :: "shot_query \<Rightarrow> error + 'f list"

text \<open>What the function asks of the provider, in order.\<close>

datatype request =
  DirectoryLookup
| CareerRequest int
| ShotRequest shot_query

text \<open>\<^verbatim>\<open>xs[i]\<close> on a Python list, and \<^verbatim>\<open>.iloc[0]\<close> on a pandas selection.\<close>

definition list_get :: "'a list \<Rightarrow> nat \<Rightarrow> error + 'a" where
  "list_get xs i =
     (if i < length xs then Inr (xs ! i) else Inl (IndexError ''list index out of range''))"

definition iloc0 :: "'a list \<Rightarrow> error + 'a" where
  "iloc0 xs =
     (case xs of
        [] \<Rightarrow> Inl (IndexError ''single positional indexer is out-of-bounds'')
      | x # _ \<Rightarrow> Inr x)"

text \<open>
  The message \<^verbatim>\<open>f"Player '{player_name}' not found."\<close> of the \<^verbatim>\<open>ValueError\<close>
  (\<open>CHR 0x27\<close> is the single quote).
\<close>

definition not_found_message :: "string \<Rightarrow> string" where
  "not_found_message player_name =
     ''Player '' @ [CHR 0x27] @ player_name @ [CHR 0x27] @ '' not found.''"

text \<open>
  \<^verbatim>\<open>get_player_shotchartdetail(player_name, season_id)\<close>. The result is the list of
  requests made, and either the exception that ended the call or the pair of tables
  returned. \<^verbatim>\<open>next((p for p in nba_players if p['full_name'] == player_name), None)\<close>
  is the first entry of the directory with that name, found by \<^const>\<open>find\<close>.
\<close>

definition get_player_shotchartdetail ::
  "'f provider \<Rightarrow> string \<Rightarrow> string \<Rightarrow> request list \<times> (error + 'f \<times> 'f)" where
  "get_player_shotchartdetail nba player_name season_id =
     (let nba_players = get_players nba in
      case find (\<lambda>p. full_name p = player_name) nba_players of
        None \<Rightarrow>
          ([DirectoryLookup], Inl (ValueError (not_found_message player_name)))
      | Some player \<Rightarrow>
          (let log1 = [DirectoryLookup, CareerRequest (id' player)] in
           case PlayerCareerStats nba (id' player) of
             Inl e \<Rightarrow> (log1, Inl e)
           | Inr frames \<Rightarrow>
               (case list_get frames 0 of
                  Inl e \<Rightarrow> (log1, Inl e)
                | Inr career_df \<Rightarrow>
                    (case iloc0 (loc career_df (col_eq SEASON_ID career_df season_id) TEAM_ID) of
                       Inl e \<Rightarrow> (log1, Inl e)
                     | Inr team \<Rightarrow>
                         (let query = \<lparr>team_id = team, player_id = id' player,
                                       season_type_all_star = ''Regular Season'',
                                       season_nullable = season_id,
                                       context_measure_simple = ''FGA''\<rparr>;
                              log2 = log1 @ [ShotRequest query] in
                          case ShotChartDetail nba query of
                            Inl e \<Rightarrow> (log2, Inl e)
                          | Inr shotchart \<Rightarrow>
                              (case list_get shotchart 0 of
                                 Inl e \<Rightarrow> (log2, Inl e)
                               | Inr first_frame \<Rightarrow>
                                   (case list_get shotchart 1 of
                                      Inl e \<Rightarrow> (log2, Inl e)
                                    | Inr second_frame \<Rightarrow>
                                        (log2, Inr (first_frame, second_frame)))))))))"

section \<open>Concrete inputs\<close>

text \<open>
  The three shots of the specification's example: one made, one missed, one with an
  outcome that is neither.
\<close>

definition example_shots :: "shot list" where
  "example_shots =
     [ \<lparr>LOC_X = 0, LOC_Y = 100, EVENT_TYPE = ''Made Shot''\<rparr>,
       \<lparr>LOC_X = -50, LOC_Y = 50, EVENT_TYPE = ''Missed Shot''\<rparr>,
       \<lparr>LOC_X = 10, LOC_Y = 10, EVENT_TYPE = ''Unknown''\<rparr> ]"

text \<open>
  A provider with one player, whose career table has a row for 2023-24 and, after a
  trade, three rows for 2024-25. The shot-chart endpoint answers with the shots above
  and an empty table of league averages.
\<close>

definition example_player :: player where
  "example_player = \<lparr>id' = 7, full_name = ''Zach Edey''\<rparr>"

definition example_earlier :: "career_row list" where
  "example_earlier = [\<lparr>SEASON_ID = ''2023-24'', TEAM_ID = 11\<rparr>]"

definition example_row :: career_row where
  "example_row = \<lparr>SEASON_ID = ''2024-25'', TEAM_ID = 22\<rparr>"

definition example_later :: "career_row list" where
  "example_later =
     [\<lparr>SEASON_ID = ''2024-25'', TEAM_ID = 33\<rparr>, \<lparr>SEASON_ID = ''2024-25'', TEAM_ID = 0\<rparr>]"

definition example_career :: "career_row list" where
  "example_career = example_earlier @ example_row # example_later"

definition example_nba :: "shot list provider" where
  "example_nba =
     \<lparr>get_players = [example_player],
      PlayerCareerStats = (\<lambda>i. Inr [example_career]),
      ShotChartDetail = (\<lambda>q. Inr [example_shots, []])\<rparr>"

text \<open>
  A store as a caller has it before the call: the example table, a fresh surface, and a
  second table that the call is not given.
\<close>

definition example_store :: store where
  "example_store = [DataFrame example_shots, Axes fresh_axes, DataFrame []]"

section \<open>Facts about the surface operations\<close>

text \<open>The loop of \<^verbatim>\<open>draw_court\<close> appends the elements and changes nothing else.\<close>

lemma fold_add_patch:
  "fold (\<lambda>element a. add_patch a element) es ax = ax\<lparr>patches := patches ax @ es\<rparr>"
  by (induction es arbitrary: ax) (simp_all add: add_patch_def)

lemma draw_court_surface:
  "draw_court gca ax color lw outer =
     (resolve_ax ax gca)\<lparr>patches := patches (resolve_ax ax gca) @ court_elements color lw outer\<rparr>"
  by (simp add: draw_court_def fold_add_patch)

lemma added_patches_draw_court:
  "added_patches (resolve_ax ax gca) (draw_court gca ax color lw outer) =
     court_elements color lw outer"
  by (simp add: added_patches_def draw_court_surface)

lemma court_elements_length:
  "length (court_elements color lw False) = 12 \<and> length (court_elements color lw True) = 13"
  by (simp add: court_elements_def)

lemma court_elements_geometry:
  "map geometry_of (court_elements color lw False) = spec_catalogue \<and>
   map geometry_of (court_elements color lw True) = spec_catalogue @ [spec_outer_boundary]"
  by (simp add: court_elements_def spec_catalogue_def spec_outer_boundary_def)

text \<open>Selecting a column under the mask of an equality test is a filter of the rows.\<close>

lemma loc_col_eq:
  "loc df (col_eq col df v) f = map f (filter (\<lambda>r. col r = v) df)"
  unfolding loc_def col_eq_def
  by (induction df) simp_all

text \<open>
  The two arguments of each \<^verbatim>\<open>scatter\<close> call come from the same mask, so they have the
  same length and pairing them loses no value.
\<close>

lemma loc_same_length:
  "length (loc data msk LOC_X) = length (loc data msk LOC_Y)"
  by (simp add: loc_def)

lemma zip_loc_coords:
  "zip (loc data (col_eq EVENT_TYPE data v) LOC_X) (loc data (col_eq EVENT_TYPE data v) LOC_Y) =
     map coords (filter (\<lambda>r. EVENT_TYPE r = v) data)"
  by (simp add: loc_col_eq zip_map_map coords_def zip_same_conv_map)

lemma rows_where_set: "rows_where P data = {i. i < length data \<and> P (data ! i)}"
  by (auto simp: rows_where_def)

lemma filter_rows_where: "filter P data = nths data (rows_where P data)"
  by (simp add: rows_where_set filter_eq_nths)

lemma scatter_patches [simp]: "patches (scatter ax x y a b d e f g h) = patches ax"
  by (simp add: scatter_def autoscale_view_def)

lemma scatter_collections:
  "collections (scatter ax x y a b d e f g h) = collections ax @
     [\<lparr>offsets = zip x y, c' = a, edgecolors = b, facecolors = d,
       marker = e, s' = f, linewidths = g, label = h\<rparr>]"
  by (simp add: scatter_def autoscale_view_def)

text \<open>What \<^verbatim>\<open>plot_shot_chart\<close> leaves on the surface, field by field.\<close>

lemma plot_patches:
  "patches (snd (plot_shot_chart gca data ttl ax court_color court_lw line_color)) =
     patches (resolve_ax ax gca) @ court_elements line_color court_lw False"
  by (simp add: plot_shot_chart_def Let_def legend_def draw_court_surface resolve_ax_def
      tick_params_def set_title_def set_ylim_def set_xlim_def)

lemma plot_collections:
  "collections (snd (plot_shot_chart gca data ttl ax court_color court_lw line_color)) =
     collections (resolve_ax ax gca) @
     [\<lparr>offsets = map coords (filter is_missed data), c' = Some ''r'', edgecolors = None,
        facecolors = None, marker = ''x'', s' = 100, linewidths = 1, label = ''Missed''\<rparr>,
      \<lparr>offsets = map coords (filter is_made data), c' = None, edgecolors = Some ''g'',
        facecolors = Some ''none'', marker = ''o'', s' = 100, linewidths = 1, label = ''Made''\<rparr>]"
  by (simp add: plot_shot_chart_def Let_def legend_def scatter_collections zip_loc_coords
      draw_court_surface resolve_ax_def tick_params_def set_title_def set_ylim_def set_xlim_def
      is_missed_def[abs_def] is_made_def[abs_def])

lemma plot_view:
  "xlim (snd (plot_shot_chart gca data ttl ax court_color court_lw line_color)) = (-250, 250) \<and>
   ylim (snd (plot_shot_chart gca data ttl ax court_color court_lw line_color)) = (422.5, -47.5)"
  by (simp add: plot_shot_chart_def Let_def legend_def scatter_def autoscale_view_def
      draw_court_surface resolve_ax_def tick_params_def set_title_def set_ylim_def set_xlim_def)

text \<open>
  The store after \<^verbatim>\<open>plot_shot_chart\<close>, when \<open>data\<close> refers to a table and the surface
  reference to a surface: the surface object is replaced by the surface that the plot
  leaves, and the eight series are new objects at the end.
\<close>

lemma plot_at_result:
  assumes d: "frame_at h data = Some df"
      and a: "axes_at h (case ax of None \<Rightarrow> gca | Some r \<Rightarrow> r) = Some a"
  shows "plot_shot_chart_at h gca data ttl ax court_color court_lw line_color =
     Some (h[(case ax of None \<Rightarrow> gca | Some r \<Rightarrow> r) :=
               Axes (snd (plot_shot_chart a df ttl (Some a) court_color court_lw line_color))]
           @ temporaries df)"
proof -
  define axr where "axr = (case ax of None \<Rightarrow> gca | Some r \<Rightarrow> r)"
  from a have al: "axr < length h" and ah: "h ! axr = Axes a"
    by (auto simp: axr_def axes_at_def split: if_splits obj.splits)
  from d have dl: "data < length h" and dh: "h ! data = DataFrame df"
    by (auto simp: frame_at_def split: if_splits obj.splits)
  from ah dh have ne: "data \<noteq> axr" by auto
  show ?thesis
    unfolding axr_def[symmetric] plot_shot_chart_at_def Let_def
    using al dl dh ah ne
    by (simp add: on_axes_def axes_at_def frame_at_def event_type_eq_def loc_at_def alloc_def
        scatter_at_def nums_at_def bools_at_def nth_append nth_list_update
        plot_shot_chart_def temporaries_def resolve_ax_def draw_court_def list_update_append)
qed


section \<open>Facts about the retriever\<close>

lemma find_unknown_name:
  "player_name \<notin> set (map full_name ps) \<Longrightarrow> find (\<lambda>p. full_name p = player_name) ps = None"
  by (auto simp: find_None_iff)

lemma team_selection_empty:
  "season_id \<notin> set (map SEASON_ID career_df) \<Longrightarrow>
   loc career_df (col_eq SEASON_ID career_df season_id) TEAM_ID = []"
  by (auto simp: loc_col_eq filter_empty_conv)

lemma team_selection_first:
  "season_id \<notin> set (map SEASON_ID pre) \<Longrightarrow> SEASON_ID row = season_id \<Longrightarrow>
   iloc0 (loc (pre @ row # post) (col_eq SEASON_ID (pre @ row # post) season_id) TEAM_ID) =
     Inr (TEAM_ID row)"
proof -
  assume a: "season_id \<notin> set (map SEASON_ID pre)" and b: "SEASON_ID row = season_id"
  from a have "filter (\<lambda>r. SEASON_ID r = season_id) pre = []"
    by (auto simp: filter_empty_conv)
  with b show ?thesis
    by (simp add: loc_col_eq iloc0_def)
qed

text \<open>
  What the call does when the player is found and the career table has no row for the
  season.
\<close>

lemma missing_season_outcome:
  "find (\<lambda>p. full_name p = player_name) (get_players nba) = Some player \<Longrightarrow>
   PlayerCareerStats nba (id' player) = Inr (career_df # other_frames) \<Longrightarrow>
   season_id \<notin> set (map SEASON_ID career_df) \<Longrightarrow>
   get_player_shotchartdetail nba player_name season_id =
     ([DirectoryLookup, CareerRequest (id' player)],
      Inl (IndexError ''single positional indexer is out-of-bounds''))"
  by (simp add: get_player_shotchartdetail_def list_get_def team_selection_empty iloc0_def)

section \<open>The shot overlay\<close>

text \<open>
  Claim C1. For every table of shots, the series labelled Missed that
  \<^verbatim>\<open>plot_shot_chart\<close> adds holds the coordinates of exactly the records whose outcome is
  \<^verbatim>\<open>'Missed Shot'\<close>, the series labelled Made those of exactly the records whose outcome
  is \<^verbatim>\<open>'Made Shot'\<close>, both in the order of the table; these are the only two series
  added. No record is in both sets, a record with any other outcome is in neither, and
  the three sets together are all the records.
\<close>

theorem C1_shot_partition:
  "series ''Missed''
      (added_collections (resolve_ax ax gca)
         (snd (plot_shot_chart gca data ttl ax court_color court_lw line_color))) =
     map coords (nths data (rows_where is_missed data))
   \<and> series ''Made''
      (added_collections (resolve_ax ax gca)
         (snd (plot_shot_chart gca data ttl ax court_color court_lw line_color))) =
     map coords (nths data (rows_where is_made data))
   \<and> map label
      (added_collections (resolve_ax ax gca)
         (snd (plot_shot_chart gca data ttl ax court_color court_lw line_color))) =
     [''Missed'', ''Made'']
   \<and> rows_where is_missed data \<inter> rows_where is_made data = {}
   \<and> rows_where is_other data \<inter> (rows_where is_missed data \<union> rows_where is_made data) = {}
   \<and> rows_where is_missed data \<union> rows_where is_made data \<union> rows_where is_other data =
       {..<length data}"
proof -
  have "rows_where is_missed data \<inter> rows_where is_made data = {}"
    by (auto simp: rows_where_set is_missed_def is_made_def)
  moreover have
    "rows_where is_other data \<inter> (rows_where is_missed data \<union> rows_where is_made data) = {}"
    by (auto simp: rows_where_set is_other_def)
  moreover have
    "rows_where is_missed data \<union> rows_where is_made data \<union> rows_where is_other data =
       {..<length data}"
    by (auto simp: rows_where_set is_other_def)
  ultimately show ?thesis
    by (simp add: added_collections_def plot_collections series_def filter_rows_where)
qed

text \<open>
  Claim C1 on the three shots of the specification's example, drawn on a fresh surface:
  the Missed series is the single point (-50, 50), the Made series the single point
  (0, 100), and the third record, at position 2, is in neither.
\<close>

theorem witness_C1_three_shots:
  "series ''Missed''
      (added_collections fresh_axes
         (snd (plot_shot_chart fresh_axes example_shots ''t'' None ''white'' 2 ''blue''))) =
     [(-50, 50)]
   \<and> series ''Made''
      (added_collections fresh_axes
         (snd (plot_shot_chart fresh_axes example_shots ''t'' None ''white'' 2 ''blue''))) =
     [(0, 100)]
   \<and> rows_where is_missed example_shots = {1}
   \<and> rows_where is_made example_shots = {0}
   \<and> rows_where is_other example_shots = {2}"
proof -
  have m: "rows_where is_missed example_shots = {1}"
    by (simp add: rows_where_def example_shots_def is_missed_def upt_rec)
  have d: "rows_where is_made example_shots = {0}"
    by (simp add: rows_where_def example_shots_def is_made_def upt_rec)
  have o: "rows_where is_other example_shots = {2}"
    by (simp add: rows_where_def example_shots_def is_other_def is_missed_def is_made_def upt_rec)
  have r: "resolve_ax None fresh_axes = fresh_axes"
    by (simp add: resolve_ax_def)
  have n1: "nths example_shots {1} = [example_shots ! 1]"
    by (simp add: example_shots_def nths_Cons)
  have n0: "nths example_shots {0} = [example_shots ! 0]"
    by (simp add: example_shots_def nths_Cons)
  show ?thesis
    using C1_shot_partition [of None fresh_axes example_shots "''t''" "''white''" 2 "''blue''"]
    unfolding r m d o n1 n0
    by (simp add: example_shots_def coords_def)
qed

text \<open>
  Claim C9. \<^verbatim>\<open>plot_shot_chart\<close> does not mutate the table it is given. With the
  caller's objects in a store, \<open>data\<close> referring to a table and the surface reference to
  a surface, the call returns, the table is the same table afterwards, and every object
  that the store held before, other than the surface, is the object it was: the call
  writes to the surface and builds new series, nothing else. The surface afterwards is
  the surface that the plot of that table leaves.
\<close>

theorem C9_table_not_mutated:
  "frame_at h data = Some df \<Longrightarrow>
   axes_at h (case ax of None \<Rightarrow> gca | Some r \<Rightarrow> r) = Some a \<Longrightarrow>
   (\<exists>h'. plot_shot_chart_at h gca data ttl ax court_color court_lw line_color = Some h'
      \<and> frame_at h' data = Some df
      \<and> length h \<le> length h'
      \<and> (\<forall>r < length h. r \<noteq> (case ax of None \<Rightarrow> gca | Some r \<Rightarrow> r) \<longrightarrow> h' ! r = h ! r)
      \<and> axes_at h' (case ax of None \<Rightarrow> gca | Some r \<Rightarrow> r) =
          Some (snd (plot_shot_chart a df ttl (Some a) court_color court_lw line_color)))"
proof -
  assume d: "frame_at h data = Some df"
    and a: "axes_at h (case ax of None \<Rightarrow> gca | Some r \<Rightarrow> r) = Some a"
  define axr where "axr = (case ax of None \<Rightarrow> gca | Some r \<Rightarrow> r)"
  define final where
    "final = snd (plot_shot_chart a df ttl (Some a) court_color court_lw line_color)"
  define h' where "h' = h[axr := Axes final] @ temporaries df"
  have run: "plot_shot_chart_at h gca data ttl ax court_color court_lw line_color = Some h'"
    using plot_at_result [OF d a] by (simp add: h'_def axr_def final_def)
  from a have al: "axr < length h" and ah: "h ! axr = Axes a"
    by (auto simp: axr_def axes_at_def split: if_splits obj.splits)
  from d have dl: "data < length h" and dh: "h ! data = DataFrame df"
    by (auto simp: frame_at_def split: if_splits obj.splits)
  from ah dh have ne: "data \<noteq> axr" by auto
  have table: "frame_at h' data = Some df"
    using dl dh ne by (simp add: h'_def frame_at_def nth_append)
  have grows: "length h \<le> length h'"
    by (simp add: h'_def)
  have others: "\<forall>r < length h. r \<noteq> axr \<longrightarrow> h' ! r = h ! r"
    by (simp add: h'_def nth_append)
  have surface: "axes_at h' axr = Some final"
    using al by (simp add: h'_def axes_at_def nth_append)
  from run table grows others surface show ?thesis
    unfolding axr_def final_def by blast
qed

text \<open>
  Claim C9 on a store with the example table at reference 0, a fresh surface at
  reference 1, which is pyplot's current one, and a second table at reference 2.
\<close>

theorem witness_C9_two_tables:
  "frame_at example_store 0 = Some example_shots
   \<and> axes_at example_store (case None of None \<Rightarrow> 1 | Some r \<Rightarrow> r) = Some fresh_axes
   \<and> (\<exists>h'. plot_shot_chart_at example_store 1 0 ''t'' None ''white'' 2 ''blue'' = Some h'
      \<and> frame_at h' 0 = Some example_shots
      \<and> length example_store \<le> length h'
      \<and> (\<forall>r < length example_store. r \<noteq> (case None of None \<Rightarrow> 1 | Some r \<Rightarrow> r) \<longrightarrow>
            h' ! r = example_store ! r)
      \<and> axes_at h' (case None of None \<Rightarrow> 1 | Some r \<Rightarrow> r) =
          Some (snd (plot_shot_chart fresh_axes example_shots ''t'' (Some fresh_axes)
                       ''white'' 2 ''blue'')))"
proof -
  have h1: "frame_at example_store 0 = Some example_shots"
    by (simp add: example_store_def frame_at_def)
  have h2: "axes_at example_store (case None of None \<Rightarrow> 1 | Some r \<Rightarrow> r) = Some fresh_axes"
    by (simp add: example_store_def axes_at_def)
  from h1 h2 C9_table_not_mutated [OF h1 h2] show ?thesis
    by blast
qed

text \<open>
  Claim C5. After \<^verbatim>\<open>plot_shot_chart\<close>, whatever the shots, the title, the styles and
  the state of the surface before, the x-extent is (-250, 250) and the y-extent is
  (422.5, -47.5), in that order: the limits are set with autoscaling switched off, so
  the later \<^verbatim>\<open>scatter\<close> calls do not move them.
\<close>

theorem C5_axis_extents:
  "xlim (snd (plot_shot_chart gca data ttl ax court_color court_lw line_color)) = (-250, 250) \<and>
   ylim (snd (plot_shot_chart gca data ttl ax court_color court_lw line_color)) = (422.5, -47.5)"
  by (rule plot_view)

section \<open>The court\<close>

text \<open>
  Claim C2, as the specification states it, fails: on a fresh surface,
  \<^verbatim>\<open>draw_court\<close> without the outer boundary does not add 11 primitives, and with the
  boundary it does not add 12.
\<close>

theorem counterexample_C2_eleven_primitives:
  "length (added_patches fresh_axes (draw_court fresh_axes None ''blue'' 1 False)) \<noteq> 11 \<and>
   length (added_patches fresh_axes (draw_court fresh_axes None ''blue'' 1 True)) \<noteq> 12"
  by (simp add: added_patches_def draw_court_surface resolve_ax_def court_elements_def)

text \<open>
  Claim C2, amended. \<^verbatim>\<open>draw_court\<close> adds exactly 12 primitives to the surface when
  \<^verbatim>\<open>outer_lines\<close> is false and exactly 13 when it is true, for every surface, colour and
  line width.
\<close>

theorem C2_primitive_count:
  "length (added_patches (resolve_ax ax gca) (draw_court gca ax color lw False)) = 12 \<and>
   length (added_patches (resolve_ax ax gca) (draw_court gca ax color lw True)) = 13"
  by (simp add: added_patches_draw_court court_elements_length)

text \<open>
  Claim C3. The shapes of the primitives that \<^verbatim>\<open>draw_court\<close> adds are, in order, the
  rows of the specification's catalogue, with the outer boundary as the last one when
  the flag is set. In particular the hoop is the circle at (0, 0) of radius 7.5, the
  three-point arc is at (0, 0) with radius 237.5 from 22 to 158 degrees, the two halves
  of the free-throw circle and the outer centre-court arc have radius 60, the
  restricted-area arc has radius 40, and the corner markers are the vertical segments
  at x = -220 and x = 220 from y = -47.5 to y = 92.5.
\<close>

theorem C3_catalogue_geometry:
  "map geometry_of (added_patches (resolve_ax ax gca) (draw_court gca ax color lw False)) =
     spec_catalogue
   \<and> map geometry_of (added_patches (resolve_ax ax gca) (draw_court gca ax color lw True)) =
     spec_catalogue @ [spec_outer_boundary]
   \<and> spec_catalogue ! 0 = GCircle (0, 0) 7.5 False
   \<and> spec_catalogue ! 9 = GArc (0, 0) 237.5 22 158
   \<and> spec_catalogue ! 4 = GArc (0, 142.5) 60 0 180
   \<and> spec_catalogue ! 5 = GArc (0, 142.5) 60 180 0
   \<and> spec_catalogue ! 10 = GArc (0, 422.5) 60 180 0
   \<and> spec_catalogue ! 6 = GArc (0, 0) 40 0 180
   \<and> spec_catalogue ! 7 = GVSegment (-220) (-47.5) 92.5
   \<and> spec_catalogue ! 8 = GVSegment 220 (-47.5) 92.5"
  by (simp add: added_patches_draw_court court_elements_geometry) (simp add: spec_catalogue_def)

text \<open>
  Claim C8. The primitives that \<^verbatim>\<open>draw_court\<close> adds depend on the colour, the line
  width and the boundary flag only: two calls with the same three arguments add the
  same list, whatever the two surfaces hold; a \<^verbatim>\<open>scatter\<close> of any data afterwards leaves
  them as they are; and two runs of \<^verbatim>\<open>plot_shot_chart\<close> on different shots leave the same
  court.
\<close>

theorem C8_court_deterministic:
  "added_patches (resolve_ax ax1 gca1) (draw_court gca1 ax1 color lw outer) =
   added_patches (resolve_ax ax2 gca2) (draw_court gca2 ax2 color lw outer)
   \<and> added_patches (resolve_ax ax1 gca1)
        (scatter (draw_court gca1 ax1 color lw outer) x y a b d e f g h) =
      added_patches (resolve_ax ax1 gca1) (draw_court gca1 ax1 color lw outer)
   \<and> added_patches (resolve_ax ax1 gca1)
        (snd (plot_shot_chart gca1 data1 ttl1 ax1 court_color lw color)) =
      added_patches (resolve_ax ax2 gca2)
        (snd (plot_shot_chart gca2 data2 ttl2 ax2 court_color lw color))"
proof -
  have "added_patches (resolve_ax ax1 gca1)
        (scatter (draw_court gca1 ax1 color lw outer) x y a b d e f g h) =
      added_patches (resolve_ax ax1 gca1) (draw_court gca1 ax1 color lw outer)"
    by (simp add: added_patches_def)
  moreover have "added_patches (resolve_ax ax1 gca1)
        (snd (plot_shot_chart gca1 data1 ttl1 ax1 court_color lw color)) =
      added_patches (resolve_ax ax2 gca2)
        (snd (plot_shot_chart gca2 data2 ttl2 ax2 court_color lw color))"
    by (simp add: added_patches_def plot_patches)
  ultimately show ?thesis
    by (simp add: added_patches_draw_court)
qed

text \<open>
  Claim C4, as the specification states it, fails: with \<^verbatim>\<open>court_color\<close> white and
  \<^verbatim>\<open>line_color\<close> blue, the court that \<^verbatim>\<open>plot_shot_chart\<close> draws is not the court that
  \<^verbatim>\<open>draw_court\<close> draws in white.
\<close>

theorem counterexample_C4_court_color:
  "added_patches fresh_axes
     (snd (plot_shot_chart fresh_axes example_shots ''t'' None ''white'' 2 ''blue'')) \<noteq>
   court_elements ''white'' 2 False"
proof -
  have "added_patches fresh_axes
     (snd (plot_shot_chart fresh_axes example_shots ''t'' None ''white'' 2 ''blue'')) =
     court_elements ''blue'' 2 False"
    by (simp add: added_patches_def plot_patches resolve_ax_def)
  then show ?thesis
    by (simp add: court_elements_def)
qed

text \<open>
  Claim C4, amended. \<^verbatim>\<open>plot_shot_chart\<close> calls \<^verbatim>\<open>draw_court\<close> with its \<^verbatim>\<open>line_color\<close>
  argument as the stroke colour, its \<^verbatim>\<open>court_lw\<close> argument as the line width and the
  outer boundary off: the court it adds is the one of that call, twelve primitives,
  each in \<^verbatim>\<open>line_color\<close> and of width \<^verbatim>\<open>court_lw\<close>. The \<^verbatim>\<open>court_color\<close> argument has no
  effect on the result.
\<close>

theorem C4_court_style:
  "added_patches (resolve_ax ax gca)
     (snd (plot_shot_chart gca data ttl ax court_color court_lw line_color)) =
   added_patches (resolve_ax ax gca) (draw_court gca ax line_color court_lw False)
   \<and> map patch_color (added_patches (resolve_ax ax gca)
        (snd (plot_shot_chart gca data ttl ax court_color court_lw line_color))) =
      replicate 12 line_color
   \<and> map patch_linewidth (added_patches (resolve_ax ax gca)
        (snd (plot_shot_chart gca data ttl ax court_color court_lw line_color))) =
      replicate 12 court_lw
   \<and> plot_shot_chart gca data ttl ax court_color court_lw line_color =
      plot_shot_chart gca data ttl ax other_color court_lw line_color"
proof -
  have p: "added_patches (resolve_ax ax gca)
     (snd (plot_shot_chart gca data ttl ax court_color court_lw line_color)) =
     court_elements line_color court_lw False"
    by (simp add: added_patches_def plot_patches)
  have col: "map patch_color (court_elements line_color court_lw False) = replicate 12 line_color"
    by (simp add: court_elements_def eval_nat_numeral)
  have wid: "map patch_linewidth (court_elements line_color court_lw False) = replicate 12 court_lw"
    by (simp add: court_elements_def eval_nat_numeral)
  have unused: "plot_shot_chart gca data ttl ax court_color court_lw line_color =
      plot_shot_chart gca data ttl ax other_color court_lw line_color"
    by (simp add: plot_shot_chart_def)
  show ?thesis
    unfolding p added_patches_draw_court using col wid unused by simp
qed

section \<open>The retriever\<close>

text \<open>
  Claim C6. When the name is not the full name of any entry of the player directory
  (names are compared as strings, so a difference of case is a difference),
  \<^verbatim>\<open>get_player_shotchartdetail\<close> ends with the \<^verbatim>\<open>ValueError\<close> that says the player was
  not found, and the directory lookup is the only thing it has asked of the provider:
  neither the career request nor the shot request is made.
\<close>

theorem C6_player_not_found:
  "player_name \<notin> set (map full_name (get_players nba)) \<Longrightarrow>
   get_player_shotchartdetail nba player_name season_id =
     ([DirectoryLookup], Inl (ValueError (not_found_message player_name)))"
proof -
  assume "player_name \<notin> set (map full_name (get_players nba))"
  then have "find (\<lambda>p. full_name p = player_name) (get_players nba) = None"
    by (rule find_unknown_name)
  then show ?thesis
    by (simp add: get_player_shotchartdetail_def)
qed

text \<open>
  Claim C6 on the example provider, whose directory holds Zach Edey: the name in lower
  case is not found.
\<close>

theorem witness_C6_lower_case_name:
  "''zach edey'' \<notin> set (map full_name (get_players example_nba)) \<and>
   get_player_shotchartdetail example_nba ''zach edey'' ''2024-25'' =
     ([DirectoryLookup], Inl (ValueError (not_found_message ''zach edey'')))"
proof -
  have h: "''zach edey'' \<notin> set (map full_name (get_players example_nba))"
    by (simp add: example_nba_def example_player_def)
  show ?thesis
    using h C6_player_not_found [OF h, of "''2024-25''"] by simp
qed

text \<open>
  Claim C7 says that a player who exists but has no career row for the requested
  season makes the call fail with SeasonNotFound. The code has no check for that case:
  where an unknown player gets a \<^verbatim>\<open>ValueError\<close> with a message of its own, a missing
  season runs into \<^verbatim>\<open>.iloc[0]\<close> on an empty selection. On the example provider, with
  Zach Edey in the directory and rows for 2023-24 and 2024-25 only, the call for 2022-23
  ends with the \<^verbatim>\<open>IndexError\<close> of pandas, after the career request and without a shot
  request.
\<close>

theorem C7_missing_season_index_error:
  "find (\<lambda>p. full_name p = ''Zach Edey'') (get_players example_nba) = Some example_player
   \<and> PlayerCareerStats example_nba (id' example_player) = Inr [example_career]
   \<and> ''2022-23'' \<notin> set (map SEASON_ID example_career)
   \<and> get_player_shotchartdetail example_nba ''Zach Edey'' ''2022-23'' =
       ([DirectoryLookup, CareerRequest (id' example_player)],
        Inl (IndexError ''single positional indexer is out-of-bounds''))"
proof -
  have h1: "find (\<lambda>p. full_name p = ''Zach Edey'') (get_players example_nba) = Some example_player"
    by (simp add: example_nba_def example_player_def)
  have h2: "PlayerCareerStats example_nba (id' example_player) = Inr [example_career]"
    by (simp add: example_nba_def)
  have h3: "''2022-23'' \<notin> set (map SEASON_ID example_career)"
    by (simp add: example_career_def example_earlier_def example_row_def example_later_def)
  note r = missing_season_outcome [OF h1 h2 h3]
  from h1 h2 h3 r show ?thesis
    by simp
qed

text \<open>
  Claim C10. When the career table has a first row for the requested season, with
  rows for other seasons before it and any rows after it, the shot request is made
  with the team of that first row, and what the call returns is what the shot-chart
  endpoint answers to that request: its error, or its first two tables. The rows after
  the first have no influence: with any other rows in their place the call makes the
  same requests and ends the same way.
\<close>

theorem C10_first_matching_row:
  "find (\<lambda>p. full_name p = player_name) (get_players nba) = Some player \<Longrightarrow>
   PlayerCareerStats nba (id' player) = Inr ((pre @ row # post) # other_frames) \<Longrightarrow>
   season_id \<notin> set (map SEASON_ID pre) \<Longrightarrow>
   SEASON_ID row = season_id \<Longrightarrow>
   get_player_shotchartdetail nba player_name season_id =
     ([DirectoryLookup, CareerRequest (id' player),
       ShotRequest \<lparr>team_id = TEAM_ID row, player_id = id' player,
                    season_type_all_star = ''Regular Season'', season_nullable = season_id,
                    context_measure_simple = ''FGA''\<rparr>],
      (case ShotChartDetail nba
              \<lparr>team_id = TEAM_ID row, player_id = id' player,
               season_type_all_star = ''Regular Season'', season_nullable = season_id,
               context_measure_simple = ''FGA''\<rparr> of
         Inl e \<Rightarrow> Inl e
       | Inr shotchart \<Rightarrow>
           (case list_get shotchart 0 of
              Inl e \<Rightarrow> Inl e
            | Inr first_frame \<Rightarrow>
                (case list_get shotchart 1 of
                   Inl e \<Rightarrow> Inl e
                 | Inr second_frame \<Rightarrow> Inr (first_frame, second_frame)))))
   \<and> get_player_shotchartdetail
       (nba\<lparr>PlayerCareerStats :=
              (PlayerCareerStats nba)(id' player := Inr ((pre @ row # post') # other_frames))\<rparr>)
       player_name season_id =
     get_player_shotchartdetail nba player_name season_id"
  by (simp add: get_player_shotchartdetail_def list_get_def team_selection_first Let_def
      split: sum.splits)

text \<open>
  Claim C10 on the example provider: Zach Edey's table has three rows for 2024-25,
  for the teams 22, 33 and 0. The request is made for team 22 and the call returns the
  endpoint's two tables; without the two later rows it does the same.
\<close>

theorem witness_C10_traded_player:
  "find (\<lambda>p. full_name p = ''Zach Edey'') (get_players example_nba) = Some example_player
   \<and> PlayerCareerStats example_nba (id' example_player) =
       Inr ((example_earlier @ example_row # example_later) # [])
   \<and> ''2024-25'' \<notin> set (map SEASON_ID example_earlier)
   \<and> SEASON_ID example_row = ''2024-25''
   \<and> get_player_shotchartdetail example_nba ''Zach Edey'' ''2024-25'' =
     ([DirectoryLookup, CareerRequest 7,
       ShotRequest \<lparr>team_id = 22, player_id = 7,
                    season_type_all_star = ''Regular Season'', season_nullable = ''2024-25'',
                    context_measure_simple = ''FGA''\<rparr>],
      Inr (example_shots, []))
   \<and> get_player_shotchartdetail
       (example_nba\<lparr>PlayerCareerStats :=
              (PlayerCareerStats example_nba)
                (id' example_player := Inr ((example_earlier @ example_row # []) # []))\<rparr>)
       ''Zach Edey'' ''2024-25'' =
     get_player_shotchartdetail example_nba ''Zach Edey'' ''2024-25''"
proof -
  have h1: "find (\<lambda>p. full_name p = ''Zach Edey'') (get_players example_nba) = Some example_player"
    by (simp add: example_nba_def example_player_def)
  have h2: "PlayerCareerStats example_nba (id' example_player) =
       Inr ((example_earlier @ example_row # example_later) # [])"
    by (simp add: example_nba_def example_career_def)
  have h3: "''2024-25'' \<notin> set (map SEASON_ID example_earlier)"
    by (simp add: example_earlier_def)
  have h4: "SEASON_ID example_row = ''2024-25''"
    by (simp add: example_row_def)
  have t: "TEAM_ID example_row = 22" "id' example_player = 7"
    by (simp_all add: example_row_def example_player_def)
  have s: "ShotChartDetail example_nba q = Inr [example_shots, []]" for q
    by (simp add: example_nba_def)
  note r = C10_first_matching_row [OF h1 h2 h3 h4, of "[]"]
  have r1: "get_player_shotchartdetail example_nba ''Zach Edey'' ''2024-25'' =
     ([DirectoryLookup, CareerRequest 7,
       ShotRequest \<lparr>team_id = 22, player_id = 7,
                    season_type_all_star = ''Regular Season'', season_nullable = ''2024-25'',
                    context_measure_simple = ''FGA''\<rparr>],
      Inr (example_shots, []))"
    using r by (simp add: t s list_get_def)
  from h1 h2 h3 h4 r r1 show ?thesis
    by blast
qed

end
